theory Spec2Isabelle
  imports Main
begin

section \<open>The etcd client library, as seen from service/lock.go\<close>

text \<open>
  \<^verbatim>\<open>service/lock.go\<close> is a facade over the etcd client (\<^verbatim>\<open>clientv3\<close>) and its
  \<^verbatim>\<open>concurrency\<close> package. Neither belongs to the repository, so nothing is assumed about
  what they answer: every library call asks a \<open>library\<close> value for its result, which may
  depend on everything that happened before, and the theorems below hold for every
  library. What the model keeps of the outside world is the order of the library calls
  with their results, and a counter that gives each new session an identity of its own.
  The \<^verbatim>\<open>log.Println\<close> lines of the source are not modelled.
\<close>

type_synonym lib_error = string

text \<open>\<^verbatim>\<open>clientv3.Config\<close>, with the four fields the constructor fills in.\<close>

record config =
  Endpoints :: "string list"
  DialTimeout :: nat
  Username :: string
  Password :: string

datatype client = Client config

datatype session = Session (session_id: nat) (session_client: client) (session_ttl: int)

datatype mutex = Mutex (mutex_session: session) (mutex_pfx: string)

text \<open>A \<^verbatim>\<open>context.Context\<close> is opaque to the lock manager: it is handed on to the library.\<close>

type_synonym ctx = nat

datatype call =
    CallNew config "lib_error option"
  | CallNewSession client int "lib_error option"
  | CallMutexLock mutex ctx "lib_error option"
  | CallMutexUnlock mutex ctx "lib_error option"
  | CallSessionClose session "lib_error option"
  | CallClientClose client "lib_error option"

record world =
  next_session :: nat
  calls :: "call list"

record library =
  new_result :: "world \<Rightarrow> config \<Rightarrow> lib_error option"
  new_session_result :: "world \<Rightarrow> client \<Rightarrow> int \<Rightarrow> lib_error option"
  mutex_lock_result :: "world \<Rightarrow> mutex \<Rightarrow> ctx \<Rightarrow> lib_error option"
  mutex_unlock_result :: "world \<Rightarrow> mutex \<Rightarrow> ctx \<Rightarrow> lib_error option"
  session_close_result :: "world \<Rightarrow> session \<Rightarrow> lib_error option"
  client_close_result :: "world \<Rightarrow> client \<Rightarrow> lib_error option"

definition record_call :: "call \<Rightarrow> world \<Rightarrow> world" where
  "record_call c w = w\<lparr>calls := calls w @ [c]\<rparr>"

text \<open>\<^verbatim>\<open>clientv3.New(config)\<close>\<close>

definition clientv3_New :: "library \<Rightarrow> config \<Rightarrow> world \<Rightarrow> (lib_error + client) \<times> world" where
  "clientv3_New lib cfg w =
     (case new_result lib w cfg of
        Some e \<Rightarrow> (Inl e, record_call (CallNew cfg (Some e)) w)
      | None \<Rightarrow> (Inr (Client cfg), record_call (CallNew cfg None) w))"

text \<open>\<^verbatim>\<open>concurrency.NewSession(client, concurrency.WithTTL(ttl))\<close>: a session that is
  granted is a new one, numbered by the counter.\<close>

definition NewSession :: "library \<Rightarrow> client \<Rightarrow> int \<Rightarrow> world \<Rightarrow> (lib_error + session) \<times> world" where
  "NewSession lib cli ttl w =
     (case new_session_result lib w cli ttl of
        Some e \<Rightarrow> (Inl e, record_call (CallNewSession cli ttl (Some e)) w)
      | None \<Rightarrow>
          (Inr (Session (next_session w) cli ttl),
           record_call (CallNewSession cli ttl None) (w\<lparr>next_session := Suc (next_session w)\<rparr>)))"

text \<open>\<^verbatim>\<open>concurrency.NewMutex(session, pfx)\<close> only builds the value; it talks to no store.\<close>

definition NewMutex :: "session \<Rightarrow> string \<Rightarrow> mutex" where
  "NewMutex s pfx = Mutex s pfx"

text \<open>\<^verbatim>\<open>mutex.Lock(ctx)\<close>, \<^verbatim>\<open>mutex.Unlock(ctx)\<close>, \<^verbatim>\<open>session.Close()\<close> and
  \<^verbatim>\<open>client.Close()\<close>: each returns a Go \<^verbatim>\<open>error\<close>, \<open>None\<close> for \<^verbatim>\<open>nil\<close>.\<close>

definition Mutex_Lock :: "library \<Rightarrow> mutex \<Rightarrow> ctx \<Rightarrow> world \<Rightarrow> lib_error option \<times> world" where
  "Mutex_Lock lib m c w =
     (let r = mutex_lock_result lib w m c in (r, record_call (CallMutexLock m c r) w))"

definition Mutex_Unlock :: "library \<Rightarrow> mutex \<Rightarrow> ctx \<Rightarrow> world \<Rightarrow> lib_error option \<times> world" where
  "Mutex_Unlock lib m c w =
     (let r = mutex_unlock_result lib w m c in (r, record_call (CallMutexUnlock m c r) w))"

definition Session_Close :: "library \<Rightarrow> session \<Rightarrow> world \<Rightarrow> lib_error option \<times> world" where
  "Session_Close lib s w =
     (let r = session_close_result lib w s in (r, record_call (CallSessionClose s r) w))"

definition Client_Close :: "library \<Rightarrow> client \<Rightarrow> world \<Rightarrow> lib_error option \<times> world" where
  "Client_Close lib cli w =
     (let r = client_close_result lib w cli in (r, record_call (CallClientClose cli r) w))"

section \<open>The lock manager of service/lock.go\<close>

text \<open>The struct \<^verbatim>\<open>EtcdDistLock\<close>; a nil pointer is \<open>None\<close>.\<close>

record EtcdDistLock =
  etcdClient :: "client option"
  session :: "session option"
  mutex :: "mutex option"
  lockPrefix :: string

text \<open>
  The errors the four functions build, one constructor for each \<^verbatim>\<open>errors.New\<close> and
  \<^verbatim>\<open>fmt.Errorf\<close> of the source (the latter wrap the library's error). \<open>ErrStore\<close> is a
  library error handed on as it is, which \<^verbatim>\<open>Close\<close> does.
\<close>

datatype error =
    ErrCreateClient lib_error
  | ErrClientNotInitialised
  | ErrCreateSession lib_error
  | ErrAcquire lib_error
  | ErrNotHeld
  | ErrRelease lib_error
  | ErrStore lib_error

definition NewEtcdDistLock ::
  "library \<Rightarrow> string list \<Rightarrow> string \<Rightarrow> world \<Rightarrow> (error + EtcdDistLock) \<times> world" where
  "NewEtcdDistLock lib endpoints pfx w =
     (let cfg = \<lparr>Endpoints = endpoints, DialTimeout = 5, Username = [], Password = []\<rparr> in
      case clientv3_New lib cfg w of
        (Inl err, w1) \<Rightarrow> (Inl (ErrCreateClient err), w1)
      | (Inr cli, w1) \<Rightarrow>
          (Inr \<lparr>etcdClient = Some cli, session = None, mutex = None, lockPrefix = pfx\<rparr>, w1))"

text \<open>\<^verbatim>\<open>Lock(ctx, ttl)\<close>: the returned triple is the Go \<^verbatim>\<open>error\<close>, the receiver after
  the call and the world after the call. The source drops what \<^verbatim>\<open>session.Close()\<close>
  returns, here and in \<^verbatim>\<open>Unlock\<close>.\<close>

definition Lock ::
  "library \<Rightarrow> ctx \<Rightarrow> int \<Rightarrow> EtcdDistLock \<Rightarrow> world \<Rightarrow> error option \<times> EtcdDistLock \<times> world" where
  "Lock lib c ttl l w =
     (case etcdClient l of
        None \<Rightarrow> (Some ErrClientNotInitialised, l, w)
      | Some cli \<Rightarrow>
          (case NewSession lib cli ttl w of
             (Inl err, w1) \<Rightarrow> (Some (ErrCreateSession err), l, w1)
           | (Inr s, w1) \<Rightarrow>
               (let m = NewMutex s (lockPrefix l) in
                case Mutex_Lock lib m c w1 of
                  (Some err, w2) \<Rightarrow>
                    (let (_, w3) = Session_Close lib s w2 in (Some (ErrAcquire err), l, w3))
                | (None, w2) \<Rightarrow> (None, l\<lparr>session := Some s, mutex := Some m\<rparr>, w2))))"

definition Unlock ::
  "library \<Rightarrow> ctx \<Rightarrow> EtcdDistLock \<Rightarrow> world \<Rightarrow> error option \<times> EtcdDistLock \<times> world" where
  "Unlock lib c l w =
     (if mutex l = None \<or> session l = None then (Some ErrNotHeld, l, w)
      else
        (case Mutex_Unlock lib (the (mutex l)) c w of
           (Some err, w1) \<Rightarrow> (Some (ErrRelease err), l, w1)
         | (None, w1) \<Rightarrow>
             (let (_, w2) = Session_Close lib (the (session l)) w1 in
              (None, l\<lparr>session := None, mutex := None\<rparr>, w2))))"

definition Close :: "library \<Rightarrow> EtcdDistLock \<Rightarrow> world \<Rightarrow> error option \<times> EtcdDistLock \<times> world" where
  "Close lib l w =
     (case etcdClient l of
        Some cli \<Rightarrow> (let (r, w1) = Client_Close lib cli w in (map_option ErrStore r, l, w1))
      | None \<Rightarrow> (None, l, w))"

section \<open>Sequences of calls on one instance\<close>

datatype op = OpLock ctx int | OpUnlock ctx | OpClose

fun step :: "library \<Rightarrow> op \<Rightarrow> EtcdDistLock \<times> world \<Rightarrow> EtcdDistLock \<times> world" where
  "step lib (OpLock c ttl) (l, w) = snd (Lock lib c ttl l w)"
| "step lib (OpUnlock c) (l, w) = snd (Unlock lib c l w)"
| "step lib OpClose (l, w) = snd (Close lib l w)"

fun run :: "library \<Rightarrow> op list \<Rightarrow> EtcdDistLock \<times> world \<Rightarrow> EtcdDistLock \<times> world" where
  "run lib [] st = st"
| "run lib (x # xs) st = run lib xs (step lib x st)"

text \<open>No \<^verbatim>\<open>Lock\<close> of the sequence returns nil: the instance never comes to hold the lock.\<close>

fun never_acquired :: "library \<Rightarrow> op list \<Rightarrow> EtcdDistLock \<times> world \<Rightarrow> bool" where
  "never_acquired lib [] st = True"
| "never_acquired lib (OpLock c ttl # xs) (l, w) =
     (fst (Lock lib c ttl l w) \<noteq> None \<and> never_acquired lib xs (step lib (OpLock c ttl) (l, w)))"
| "never_acquired lib (x # xs) st = never_acquired lib xs (step lib x st)"

section \<open>What the world's record says\<close>

text \<open>The sessions on which \<^verbatim>\<open>Close\<close> was called, in the order of the calls.\<close>

fun closed_sessions :: "call list \<Rightarrow> session list" where
  "closed_sessions [] = []"
| "closed_sessions (CallSessionClose s r # cs) = s # closed_sessions cs"
| "closed_sessions (_ # cs) = closed_sessions cs"

text \<open>The sessions whose \<^verbatim>\<open>Close\<close> returned nil, that is, whose lease the store revoked:
  a \<^verbatim>\<open>Close\<close> that returns an error has not revoked the lease, and the keys under it
  stay until the lease runs out.\<close>

fun revoked_sessions :: "call list \<Rightarrow> session list" where
  "revoked_sessions [] = []"
| "revoked_sessions (CallSessionClose s None # cs) = s # revoked_sessions cs"
| "revoked_sessions (_ # cs) = revoked_sessions cs"

text \<open>The sessions the library granted, in the order of the calls on a world that
  started with the counter at \<open>n\<close>.\<close>

fun granted_sessions :: "nat \<Rightarrow> call list \<Rightarrow> session list" where
  "granted_sessions n [] = []"
| "granted_sessions n (CallNewSession cli ttl None # cs) =
     Session n cli ttl # granted_sessions (Suc n) cs"
| "granted_sessions n (_ # cs) = granted_sessions n cs"

section \<open>Concrete libraries and instances\<close>

definition world0 :: world where
  "world0 = \<lparr>next_session = 0, calls = []\<rparr>"

text \<open>A store that answers every call with success.\<close>

definition store_up :: library where
  "store_up =
     \<lparr>new_result = (\<lambda>w cfg. None),
      new_session_result = (\<lambda>w cli ttl. None),
      mutex_lock_result = (\<lambda>w m c. None),
      mutex_unlock_result = (\<lambda>w m c. None),
      session_close_result = (\<lambda>w s. None),
      client_close_result = (\<lambda>w cli. None)\<rparr>"

text \<open>A store on which the lock is taken: \<^verbatim>\<open>mutex.Lock\<close> ends with the context's error.\<close>

definition store_contended :: library where
  "store_contended = store_up\<lparr>mutex_lock_result := (\<lambda>w m c. Some ''context deadline exceeded'')\<rparr>"

text \<open>A store that cannot be reached when a key is deleted or a lease revoked.\<close>

definition store_unlock_fails :: library where
  "store_unlock_fails = store_up\<lparr>mutex_unlock_result := (\<lambda>w m c. Some ''etcdserver: request timed out'')\<rparr>"

definition store_revoke_fails :: library where
  "store_revoke_fails = store_up\<lparr>session_close_result := (\<lambda>w s. Some ''etcdserver: request timed out'')\<rparr>"

text \<open>A store on which the lock is taken and which cannot be reached any more when the
  waiter gives up: \<^verbatim>\<open>mutex.Lock\<close> ends with the context's error and the lease cannot be
  revoked.\<close>

definition store_contended_revoke_fails :: library where
  "store_contended_revoke_fails =
     store_contended\<lparr>session_close_result := (\<lambda>w s. Some ''etcdserver: request timed out'')\<rparr>"

definition cfg0 :: config where
  "cfg0 = \<lparr>Endpoints = [''127.0.0.1:2379''], DialTimeout = 5, Username = [], Password = []\<rparr>"

text \<open>The instance \<^verbatim>\<open>NewEtcdDistLock\<close> returns in \<^verbatim>\<open>main\<close>, and the zero-valued struct
  with a prefix, whose client is nil.\<close>

definition fresh_lock :: EtcdDistLock where
  "fresh_lock =
     \<lparr>etcdClient = Some (Client cfg0), session = None, mutex = None,
      lockPrefix = ''/dist/lock/test_resource/''\<rparr>"

definition nil_lock :: EtcdDistLock where
  "nil_lock =
     \<lparr>etcdClient = None, session = None, mutex = None,
      lockPrefix = ''/dist/lock/test_resource/''\<rparr>"

text \<open>The instance and the world after \<^verbatim>\<open>Lock(ctx, 10)\<close> succeeded on \<open>fresh_lock\<close>
  in \<open>world0\<close>.\<close>

definition session0 :: session where
  "session0 = Session 0 (Client cfg0) 10"

definition held_lock :: EtcdDistLock where
  "held_lock =
     fresh_lock\<lparr>session := Some session0,
       mutex := Some (Mutex session0 ''/dist/lock/test_resource/'')\<rparr>"

definition world1 :: world where
  "world1 =
     \<lparr>next_session = 1,
      calls = [CallNewSession (Client cfg0) 10 None,
               CallMutexLock (Mutex session0 ''/dist/lock/test_resource/'') 30 None]\<rparr>"

section \<open>Basic facts about the four functions\<close>

lemmas lib_defs = clientv3_New_def NewSession_def NewMutex_def Mutex_Lock_def Mutex_Unlock_def
  Session_Close_def Client_Close_def record_call_def Let_def

lemmas store_defs = store_up_def store_contended_def store_unlock_fails_def store_revoke_fails_def
  store_contended_revoke_fails_def

lemma Lock_fresh: "Lock store_up 30 10 fresh_lock world0 = (None, held_lock, world1)"
  by (simp add: Lock_def lib_defs store_defs fresh_lock_def held_lock_def world0_def world1_def session0_def)

lemma Lock_failed_unchanged: "Lock lib c ttl l w = (Some e, l', w') \<Longrightarrow> l' = l"
  by (auto simp: Lock_def Let_def split: option.splits sum.splits prod.splits)

lemma Lock_ok_fields:
  "Lock lib c ttl l w = (None, l', w') \<Longrightarrow>
     \<exists>cli. etcdClient l = Some cli \<and>
       l' = l\<lparr>session := Some (Session (next_session w) cli ttl),
               mutex := Some (Mutex (Session (next_session w) cli ttl) (lockPrefix l))\<rparr> \<and>
       w' = \<lparr>next_session = Suc (next_session w),
             calls = calls w @ [CallNewSession cli ttl None,
               CallMutexLock (Mutex (Session (next_session w) cli ttl) (lockPrefix l)) c None]\<rparr>"
  by (auto simp: Lock_def lib_defs split: option.splits sum.splits prod.splits)

lemma Unlock_failed_unchanged: "Unlock lib c l w = (Some e, l', w') \<Longrightarrow> l' = l"
  by (auto simp: Unlock_def Let_def split: if_splits option.splits sum.splits prod.splits)

lemma Unlock_ok_fields:
  "Unlock lib c l w = (None, l', w') \<Longrightarrow>
     \<exists>m s r. mutex l = Some m \<and> session l = Some s \<and> l' = l\<lparr>session := None, mutex := None\<rparr> \<and>
       mutex_unlock_result lib w m c = None \<and>
       w' = w\<lparr>calls := calls w @ [CallMutexUnlock m c None, CallSessionClose s r]\<rparr>"
  by (auto simp: Unlock_def lib_defs split: if_splits option.splits sum.splits prod.splits)

lemma Unlock_not_held:
  "session l = None \<or> mutex l = None \<Longrightarrow> Unlock lib c l w = (Some ErrNotHeld, l, w)"
  by (auto simp: Unlock_def split: if_splits option.splits)

lemma Close_unchanged: "Close lib l w = (r, l', w') \<Longrightarrow> l' = l"
  by (auto simp: Close_def Let_def split: option.splits prod.splits)

lemma New_fields:
  "NewEtcdDistLock lib eps pfx w = (Inr l0, w0) \<Longrightarrow>
     session l0 = None \<and> mutex l0 = None \<and> lockPrefix l0 = pfx \<and> etcdClient l0 \<noteq> None"
  by (auto simp: NewEtcdDistLock_def Let_def split: option.splits sum.splits prod.splits)

lemma step_next_session_mono: "next_session (snd st) \<le> next_session (snd (step lib x st))"
  by (cases st; cases x)
     (auto simp: Lock_def Unlock_def Close_def lib_defs split: if_splits option.splits sum.splits prod.splits)

lemma run_next_session_mono: "next_session (snd st) \<le> next_session (snd (run lib xs st))"
proof (induction xs arbitrary: st)
  case Nil
  show ?case by simp
next
  case (Cons x xs)
  have "next_session (snd st) \<le> next_session (snd (step lib x st))"
    by (rule step_next_session_mono)
  also have "\<dots> \<le> next_session (snd (run lib xs (step lib x st)))"
    by (rule Cons.IH)
  finally show ?case by simp
qed

lemma step_lockPrefix: "lockPrefix (fst (step lib x st)) = lockPrefix (fst st)"
  by (cases st; cases x)
     (auto simp: Lock_def Unlock_def Close_def lib_defs split: if_splits option.splits sum.splits prod.splits)

lemma run_lockPrefix: "lockPrefix (fst (run lib xs st)) = lockPrefix (fst st)"
  by (induction xs arbitrary: st) (simp_all add: step_lockPrefix)

lemma step_paired:
  "(session (fst st) = None) = (mutex (fst st) = None) \<Longrightarrow>
   (session (fst (step lib x st)) = None) = (mutex (fst (step lib x st)) = None)"
  by (cases st; cases x)
     (auto simp: Lock_def Unlock_def Close_def lib_defs split: if_splits option.splits sum.splits prod.splits)

lemma run_paired:
  "(session (fst st) = None) = (mutex (fst st) = None) \<Longrightarrow>
   (session (fst (run lib xs st)) = None) = (mutex (fst (run lib xs st)) = None)"
  by (induction xs arbitrary: st) (simp_all add: step_paired)

lemma step_not_held:
  "session l = None \<or> mutex l = None \<Longrightarrow> never_acquired lib [x] (l, w) \<Longrightarrow>
   session (fst (step lib x (l, w))) = None \<or> mutex (fst (step lib x (l, w))) = None"
  by (cases x)
     (auto simp: Lock_def Unlock_def Close_def lib_defs split: if_splits option.splits sum.splits prod.splits)

lemma run_not_held:
  "session (fst st) = None \<or> mutex (fst st) = None \<Longrightarrow> never_acquired lib xs st \<Longrightarrow>
   session (fst (run lib xs st)) = None \<or> mutex (fst (run lib xs st)) = None"
proof (induction xs arbitrary: st)
  case Nil
  then show ?case by simp
next
  case (Cons x xs)
  obtain l w where st: "st = (l, w)" by (cases st)
  from Cons.prems(2) have one: "never_acquired lib [x] (l, w)" and rest: "never_acquired lib xs (step lib x st)"
    unfolding st by (cases x; simp)+
  from Cons.prems(1) one have "session (fst (step lib x st)) = None \<or> mutex (fst (step lib x st)) = None"
    unfolding st by (simp only: fst_conv step_not_held)
  from Cons.IH [OF this rest] show ?case by simp
qed

lemma closed_sessions_append:
  "closed_sessions (xs @ ys) = closed_sessions xs @ closed_sessions ys"
  by (induction xs rule: closed_sessions.induct) simp_all

lemma revoked_sessions_append:
  "revoked_sessions (xs @ ys) = revoked_sessions xs @ revoked_sessions ys"
  by (induction xs rule: revoked_sessions.induct) simp_all

lemmas eval_defs = Lock_def Unlock_def Close_def NewEtcdDistLock_def lib_defs store_defs
  fresh_lock_def held_lock_def nil_lock_def world0_def world1_def session0_def cfg0_def

section \<open>The nil-client guards\<close>

text \<open>
  C8. On an instance whose \<^verbatim>\<open>etcdClient\<close> is nil, \<^verbatim>\<open>Lock\<close> returns the
  "client not initialised" error and \<^verbatim>\<open>Close\<close> returns nil; in both the instance and the
  world come back as they were, so no library call was made on the nil client.
\<close>

theorem nil_client_guarded:
  "etcdClient l = None \<Longrightarrow>
     Lock lib c ttl l w = (Some ErrClientNotInitialised, l, w) \<and> Close lib l w = (None, l, w)"
  by (simp add: Lock_def Close_def)

theorem nil_client_guarded_witness:
  "Lock store_contended 30 10 nil_lock world0 = (Some ErrClientNotInitialised, nil_lock, world0)
   \<and> Close store_contended nil_lock world0 = (None, nil_lock, world0)"
  using nil_client_guarded [of nil_lock store_contended 30 10 world0]
  by (simp add: nil_lock_def)

section \<open>Releasing what is not held\<close>

text \<open>
  C2. After \<^verbatim>\<open>Unlock\<close> returned nil, the session and mutex fields are nil, and the next
  \<^verbatim>\<open>Unlock\<close> on the instance returns the "not held" error and changes nothing, whatever
  calls that acquire nothing came in between (none, for the second release in a row).
  The same holds for an instance that \<^verbatim>\<open>NewEtcdDistLock\<close> returned and that never
  acquired the lock.
\<close>

theorem release_twice_is_NotHeld:
  "(Unlock lib c l w = (None, l', w') \<and> never_acquired lib xs (l', w') \<longrightarrow>
      session l' = None \<and> mutex l' = None \<and>
      Unlock lib c2 (fst (run lib xs (l', w'))) (snd (run lib xs (l', w')))
        = (Some ErrNotHeld, run lib xs (l', w')))
   \<and> (NewEtcdDistLock lib eps pfx wi = (Inr l0, w0) \<and> never_acquired lib ys (l0, w0) \<longrightarrow>
      Unlock lib c2 (fst (run lib ys (l0, w0))) (snd (run lib ys (l0, w0)))
        = (Some ErrNotHeld, run lib ys (l0, w0)))"
proof (intro conjI impI)
  assume a: "Unlock lib c l w = (None, l', w') \<and> never_acquired lib xs (l', w')"
  then have nil: "session l' = None" "mutex l' = None"
    by (auto dest: Unlock_ok_fields)
  then show "session l' = None" and "mutex l' = None" by simp_all
  from nil a have "session (fst (run lib xs (l', w'))) = None \<or> mutex (fst (run lib xs (l', w'))) = None"
    by (intro run_not_held) simp_all
  then show "Unlock lib c2 (fst (run lib xs (l', w'))) (snd (run lib xs (l', w')))
        = (Some ErrNotHeld, run lib xs (l', w'))"
    by (simp add: Unlock_not_held)
next
  assume a: "NewEtcdDistLock lib eps pfx wi = (Inr l0, w0) \<and> never_acquired lib ys (l0, w0)"
  then have "session l0 = None" by (auto dest: New_fields)
  with a have "session (fst (run lib ys (l0, w0))) = None \<or> mutex (fst (run lib ys (l0, w0))) = None"
    by (intro run_not_held) simp_all
  then show "Unlock lib c2 (fst (run lib ys (l0, w0))) (snd (run lib ys (l0, w0)))
        = (Some ErrNotHeld, run lib ys (l0, w0))"
    by (simp add: Unlock_not_held)
qed

theorem release_twice_is_NotHeld_witness:
  "fst (Unlock store_contended 30 held_lock world1) = None
   \<and> fst (snd (Unlock store_contended 30 held_lock world1)) = fresh_lock
   \<and> fst (Unlock store_contended 31 fresh_lock (snd (snd (Unlock store_contended 30 held_lock world1))))
       = Some ErrNotHeld
   \<and> fst (NewEtcdDistLock store_contended [''127.0.0.1:2379''] ''/dist/lock/test_resource/'' world0)
       = Inr fresh_lock
   \<and> never_acquired store_contended [OpLock 30 10, OpClose]
       (fresh_lock, snd (NewEtcdDistLock store_contended [''127.0.0.1:2379''] ''/dist/lock/test_resource/'' world0))
   \<and> fst (Unlock store_contended 31
        (fst (run store_contended [OpLock 30 10, OpClose]
          (fresh_lock, snd (NewEtcdDistLock store_contended [''127.0.0.1:2379''] ''/dist/lock/test_resource/'' world0))))
        (snd (run store_contended [OpLock 30 10, OpClose]
          (fresh_lock, snd (NewEtcdDistLock store_contended [''127.0.0.1:2379''] ''/dist/lock/test_resource/'' world0)))))
       = Some ErrNotHeld"
  using release_twice_is_NotHeld [where lib = store_contended and c = 30 and l = held_lock
      and w = world1 and l' = fresh_lock
      and w' = "snd (snd (Unlock store_contended 30 held_lock world1))" and xs = "[]" and ?c2.0 = 31
      and eps = "[''127.0.0.1:2379'']" and pfx = "''/dist/lock/test_resource/''" and wi = world0
      and ?l0.0 = fresh_lock
      and ?w0.0 = "snd (NewEtcdDistLock store_contended [''127.0.0.1:2379''] ''/dist/lock/test_resource/'' world0)"
      and ys = "[OpLock 30 10, OpClose]"]
  by (simp add: eval_defs)

section \<open>Sessions and acquire/release cycles\<close>

text \<open>
  C3 says that one instance keeps a single session over its sequential acquire/release
  cycles. On the code this fails: on a store that answers every call with success, two
  cycles on the instance of \<^verbatim>\<open>main\<close> are granted two sessions, numbered 0 and 1; the first
  \<^verbatim>\<open>Unlock\<close> closes session 0, the second \<^verbatim>\<open>Lock\<close> holds session 1, and both sessions are
  closed after the second \<^verbatim>\<open>Unlock\<close>.
\<close>

theorem two_cycles_two_sessions:
  "session (fst (run store_up [OpLock 30 10] (fresh_lock, world0))) = Some (Session 0 (Client cfg0) 10)
   \<and> closed_sessions (calls (snd (run store_up [OpLock 30 10, OpUnlock 30] (fresh_lock, world0))))
       = [Session 0 (Client cfg0) 10]
   \<and> session (fst (run store_up [OpLock 30 10, OpUnlock 30, OpLock 30 10] (fresh_lock, world0)))
       = Some (Session 1 (Client cfg0) 10)
   \<and> granted_sessions 0
        (calls (snd (run store_up [OpLock 30 10, OpUnlock 30, OpLock 30 10, OpUnlock 30] (fresh_lock, world0))))
       = [Session 0 (Client cfg0) 10, Session 1 (Client cfg0) 10]
   \<and> closed_sessions
        (calls (snd (run store_up [OpLock 30 10, OpUnlock 30, OpLock 30 10, OpUnlock 30] (fresh_lock, world0))))
       = [Session 0 (Client cfg0) 10, Session 1 (Client cfg0) 10]"
  by (simp add: eval_defs)

text \<open>
  C3, as the code has it: every \<^verbatim>\<open>Lock\<close> that returns nil has been granted a session of
  its own, which it stores in the instance; every \<^verbatim>\<open>Unlock\<close> that returns nil calls
  \<^verbatim>\<open>Close\<close> on the stored session and forgets it; and two calls of \<^verbatim>\<open>Lock\<close> that return nil
  on one instance, whatever calls lie between them, hold different sessions.
\<close>

theorem session_per_cycle:
  "(Lock lib c ttl l w = (None, l1, w1) \<longrightarrow>
      next_session w1 = Suc (next_session w) \<and>
      (\<exists>cli. etcdClient l = Some cli \<and> session l1 = Some (Session (next_session w) cli ttl)))
   \<and> (Unlock lib cu lu wu = (None, lu', wu') \<longrightarrow>
      session lu' = None \<and>
      (\<exists>s. session lu = Some s \<and> closed_sessions (calls wu') = closed_sessions (calls wu) @ [s]))
   \<and> (Lock lib c ttl l w = (None, l1, w1) \<and> run lib xs (l1, w1) = (l2, w2) \<and>
       Lock lib c3 ttl3 l2 w2 = (None, l3, w3) \<longrightarrow>
      (\<exists>s1 s3. session l1 = Some s1 \<and> session l3 = Some s3 \<and> session_id s1 < session_id s3))"
proof (intro conjI impI)
  assume "Lock lib c ttl l w = (None, l1, w1)"
  from Lock_ok_fields [OF this]
  show "next_session w1 = Suc (next_session w)"
    and "\<exists>cli. etcdClient l = Some cli \<and> session l1 = Some (Session (next_session w) cli ttl)"
    by auto
next
  assume "Unlock lib cu lu wu = (None, lu', wu')"
  from Unlock_ok_fields [OF this]
  show "session lu' = None"
    and "\<exists>s. session lu = Some s \<and> closed_sessions (calls wu') = closed_sessions (calls wu) @ [s]"
    by (auto simp: closed_sessions_append)
next
  assume a: "Lock lib c ttl l w = (None, l1, w1) \<and> run lib xs (l1, w1) = (l2, w2) \<and>
       Lock lib c3 ttl3 l2 w2 = (None, l3, w3)"
  from a Lock_ok_fields [of lib c ttl l w l1 w1]
  obtain cli where s1: "session l1 = Some (Session (next_session w) cli ttl)"
    and n1: "next_session w1 = Suc (next_session w)"
    by auto
  from a Lock_ok_fields [of lib c3 ttl3 l2 w2 l3 w3]
  obtain cli3 where s3: "session l3 = Some (Session (next_session w2) cli3 ttl3)"
    by auto
  from a run_next_session_mono [of "(l1, w1)" lib xs]
  have "next_session w1 \<le> next_session w2" by simp
  with n1 s1 s3 show "\<exists>s1 s3. session l1 = Some s1 \<and> session l3 = Some s3 \<and> session_id s1 < session_id s3"
    by simp
qed

theorem session_per_cycle_witness:
  "Lock store_up 30 10 fresh_lock world0 = (None, held_lock, world1)
   \<and> next_session world1 = Suc (next_session world0)
   \<and> session held_lock = Some (Session 0 (Client cfg0) 10)
   \<and> fst (Unlock store_up 30 held_lock world1) = None
   \<and> closed_sessions (calls (snd (snd (Unlock store_up 30 held_lock world1)))) = [session0]
   \<and> fst (Lock store_up 31 20 (fst (run store_up [OpUnlock 30] (held_lock, world1)))
        (snd (run store_up [OpUnlock 30] (held_lock, world1)))) = None
   \<and> session (fst (snd (Lock store_up 31 20 (fst (run store_up [OpUnlock 30] (held_lock, world1)))
        (snd (run store_up [OpUnlock 30] (held_lock, world1)))))) = Some (Session 1 (Client cfg0) 20)"
  using session_per_cycle [where lib = store_up and c = 30 and ttl = 10 and l = fresh_lock
      and w = world0 and ?l1.0 = held_lock and ?w1.0 = world1 and xs = "[OpUnlock 30]"
      and cu = 30 and lu = held_lock and wu = world1
      and lu' = "fst (snd (Unlock store_up 30 held_lock world1))"
      and wu' = "snd (snd (Unlock store_up 30 held_lock world1))"
      and ?l2.0 = "fst (run store_up [OpUnlock 30] (held_lock, world1))"
      and ?w2.0 = "snd (run store_up [OpUnlock 30] (held_lock, world1))"
      and ?c3.0 = 31 and ?ttl3.0 = 20
      and ?l3.0 = "fst (snd (Lock store_up 31 20 (fst (run store_up [OpUnlock 30] (held_lock, world1)))
        (snd (run store_up [OpUnlock 30] (held_lock, world1)))))"
      and ?w3.0 = "snd (snd (Lock store_up 31 20 (fst (run store_up [OpUnlock 30] (held_lock, world1)))
        (snd (run store_up [OpUnlock 30] (held_lock, world1)))))"]
  by (simp add: eval_defs)

section \<open>Close\<close>

text \<open>
  C4 says that \<^verbatim>\<open>Close\<close> tears down the session as well as the client. On the code this
  fails: \<^verbatim>\<open>Close\<close> on an instance that holds the lock returns nil, has called only
  \<^verbatim>\<open>client.Close\<close>, never \<^verbatim>\<open>session.Close\<close>, and leaves the session and the mutex in their
  fields.
\<close>

theorem close_leaves_session_open:
  "fst (Close store_up held_lock world1) = None
   \<and> session (fst (snd (Close store_up held_lock world1))) = Some session0
   \<and> mutex (fst (snd (Close store_up held_lock world1))) = Some (Mutex session0 ''/dist/lock/test_resource/'')
   \<and> closed_sessions (calls (snd (snd (Close store_up held_lock world1)))) = []
   \<and> calls (snd (snd (Close store_up held_lock world1)))
       = calls world1 @ [CallClientClose (Client cfg0) None]"
  by (simp add: eval_defs)

text \<open>
  C4, as the code has it: \<^verbatim>\<open>Close\<close> releases the store client only. With a client it
  calls \<^verbatim>\<open>client.Close\<close> once and returns what that returns; with a nil client it does
  nothing and returns nil. In both cases it calls \<^verbatim>\<open>Close\<close> on no session and changes
  no field of the instance.
\<close>

theorem Close_only_closes_client:
  "Close lib l w = (r, l', w') \<Longrightarrow>
     l' = l \<and> closed_sessions (calls w') = closed_sessions (calls w) \<and>
     (case etcdClient l of
        None \<Rightarrow> r = None \<and> w' = w
      | Some cli \<Rightarrow>
          r = map_option ErrStore (client_close_result lib w cli) \<and>
          calls w' = calls w @ [CallClientClose cli (client_close_result lib w cli)])"
  by (auto simp: Close_def lib_defs closed_sessions_append split: option.splits)

theorem Close_only_closes_client_witness:
  "Close store_up held_lock world1
     = (None, held_lock, world1\<lparr>calls := calls world1 @ [CallClientClose (Client cfg0) None]\<rparr>)
   \<and> closed_sessions (calls (world1\<lparr>calls := calls world1 @ [CallClientClose (Client cfg0) None]\<rparr>))
       = closed_sessions (calls world1)
   \<and> etcdClient held_lock = Some (Client cfg0)"
  using Close_only_closes_client [of store_up held_lock world1 None held_lock
      "world1\<lparr>calls := calls world1 @ [CallClientClose (Client cfg0) None]\<rparr>"]
  by (simp add: eval_defs)

section \<open>A failed acquisition\<close>

text \<open>
  C5 says that a \<^verbatim>\<open>Lock\<close> that fails while waiting withdraws its queue entry by closing the
  session, which revokes the lease behind the entry, so that no stale queue member is
  left. On the code this fails: \<^verbatim>\<open>Lock\<close> calls \<^verbatim>\<open>session.Close\<close> and drops what it returns.
  On a store that cannot be reached any more when the waiter gives up, \<^verbatim>\<open>Lock\<close> on the
  instance of \<^verbatim>\<open>main\<close> returns the acquisition error alone, the one \<^verbatim>\<open>Close\<close> it called on
  its session returned an error, and no lease was revoked.
\<close>

theorem failed_acquire_lease_not_revoked:
  "fst (Lock store_contended_revoke_fails 30 10 fresh_lock world0)
     = Some (ErrAcquire ''context deadline exceeded'')
   \<and> calls (snd (snd (Lock store_contended_revoke_fails 30 10 fresh_lock world0)))
       = [CallNewSession (Client cfg0) 10 None,
          CallMutexLock (Mutex session0 ''/dist/lock/test_resource/'') 30 (Some ''context deadline exceeded''),
          CallSessionClose session0 (Some ''etcdserver: request timed out'')]
   \<and> granted_sessions 0 (calls (snd (snd (Lock store_contended_revoke_fails 30 10 fresh_lock world0))))
       = [session0]
   \<and> revoked_sessions (calls (snd (snd (Lock store_contended_revoke_fails 30 10 fresh_lock world0))))
       = []"
  by (simp add: eval_defs)

text \<open>
  C5, as the code has it: when the client is set, the session is granted and
  \<^verbatim>\<open>mutex.Lock\<close> returns an error (which it does when the context is cancelled or its
  deadline passes while waiting), \<^verbatim>\<open>Lock\<close> calls \<^verbatim>\<open>Close\<close> once on the session it was granted
  in this call, right after the failed \<^verbatim>\<open>mutex.Lock\<close>, and then returns the acquisition
  error, with the instance unchanged. What that \<^verbatim>\<open>Close\<close> returns is dropped: the lease of
  the session is revoked exactly when the \<^verbatim>\<open>Close\<close> returns nil, and the error \<^verbatim>\<open>Lock\<close>
  returns is the same in both cases.
\<close>

theorem failed_acquire_closes_session:
  "etcdClient l = Some cli \<Longrightarrow> NewSession lib cli ttl w = (Inr s, w1) \<Longrightarrow>
   Mutex_Lock lib (NewMutex s (lockPrefix l)) c w1 = (Some e, w2) \<Longrightarrow>
     Lock lib c ttl l w = (Some (ErrAcquire e), l, snd (Session_Close lib s w2)) \<and>
     s = Session (next_session w) cli ttl \<and>
     calls (snd (Session_Close lib s w2))
       = calls w @ [CallNewSession cli ttl None, CallMutexLock (Mutex s (lockPrefix l)) c (Some e),
                    CallSessionClose s (session_close_result lib w2 s)] \<and>
     closed_sessions (calls (snd (Session_Close lib s w2))) = closed_sessions (calls w) @ [s] \<and>
     revoked_sessions (calls (snd (Session_Close lib s w2)))
       = revoked_sessions (calls w) @ (if session_close_result lib w2 s = None then [s] else [])"
  by (auto simp: Lock_def lib_defs closed_sessions_append revoked_sessions_append
      split: option.splits prod.splits)

theorem failed_acquire_closes_session_witness:
  "etcdClient fresh_lock = Some (Client cfg0)
   \<and> fst (NewSession store_contended (Client cfg0) 10 world0) = Inr session0
   \<and> fst (Mutex_Lock store_contended (NewMutex session0 (lockPrefix fresh_lock)) 30
        (snd (NewSession store_contended (Client cfg0) 10 world0))) = Some ''context deadline exceeded''
   \<and> fst (Lock store_contended 30 10 fresh_lock world0) = Some (ErrAcquire ''context deadline exceeded'')
   \<and> fst (snd (Lock store_contended 30 10 fresh_lock world0)) = fresh_lock
   \<and> calls (snd (snd (Lock store_contended 30 10 fresh_lock world0)))
       = [CallNewSession (Client cfg0) 10 None,
          CallMutexLock (Mutex session0 ''/dist/lock/test_resource/'') 30 (Some ''context deadline exceeded''),
          CallSessionClose session0 None]
   \<and> closed_sessions (calls (snd (snd (Lock store_contended 30 10 fresh_lock world0)))) = [session0]
   \<and> revoked_sessions (calls (snd (snd (Lock store_contended 30 10 fresh_lock world0)))) = [session0]"
  using failed_acquire_closes_session [of fresh_lock "Client cfg0" store_contended 10 world0 session0
      "snd (NewSession store_contended (Client cfg0) 10 world0)" 30 "''context deadline exceeded''"
      "snd (Mutex_Lock store_contended (NewMutex session0 (lockPrefix fresh_lock)) 30
        (snd (NewSession store_contended (Client cfg0) 10 world0)))"]
  by (simp add: eval_defs)

section \<open>The resource an instance locks\<close>

text \<open>
  C6 says that the resource name is an argument of each acquisition and that acquisitions
  of one instance for different resources share the instance's one session. On the code
  this fails: \<^verbatim>\<open>Lock\<close> takes a context and a TTL only. Two calls on the instance of
  \<^verbatim>\<open>main\<close>, with different contexts and TTLs, build their mutexes on the same prefix, the
  one the instance was constructed with, and on two different sessions; the instance keeps
  the second pair only.
\<close>

theorem same_prefix_own_session_each_call:
  "mutex (fst (run store_up [OpLock 1 10] (fresh_lock, world0)))
     = Some (Mutex (Session 0 (Client cfg0) 10) ''/dist/lock/test_resource/'')
   \<and> mutex (fst (run store_up [OpLock 1 10, OpLock 2 20] (fresh_lock, world0)))
     = Some (Mutex (Session 1 (Client cfg0) 20) ''/dist/lock/test_resource/'')
   \<and> session (fst (run store_up [OpLock 1 10, OpLock 2 20] (fresh_lock, world0)))
     = Some (Session 1 (Client cfg0) 20)"
  by (simp add: eval_defs)

text \<open>
  C6, as the code has it: the resource is the prefix handed to \<^verbatim>\<open>NewEtcdDistLock\<close>. On the
  instance the constructor returned, after any sequence of calls, a \<^verbatim>\<open>Lock\<close> that returns
  nil leaves the prefix as constructed and stores a mutex on that prefix, built on a
  session this call was granted.
\<close>

theorem prefix_fixed_at_construction:
  "NewEtcdDistLock lib eps pfx wi = (Inr l0, w0) \<Longrightarrow> run lib xs (l0, w0) = (l, w) \<Longrightarrow>
   Lock lib c ttl l w = (None, l', w') \<Longrightarrow>
     lockPrefix l' = pfx \<and>
     (\<exists>s. session_id s = next_session w \<and> session l' = Some s \<and> mutex l' = Some (Mutex s pfx))"
proof -
  assume new: "NewEtcdDistLock lib eps pfx wi = (Inr l0, w0)"
    and ran: "run lib xs (l0, w0) = (l, w)"
    and locked: "Lock lib c ttl l w = (None, l', w')"
  from new have "lockPrefix l0 = pfx" by (simp add: New_fields)
  with ran run_lockPrefix [of lib xs "(l0, w0)"] have "lockPrefix l = pfx" by simp
  with Lock_ok_fields [OF locked] show ?thesis by auto
qed

theorem prefix_fixed_at_construction_witness:
  "NewEtcdDistLock store_up [''127.0.0.1:2379''] ''/dist/lock/test_resource/'' world0
     = (Inr fresh_lock, world0\<lparr>calls := [CallNew cfg0 None]\<rparr>)
   \<and> fst (run store_up [OpLock 1 10, OpUnlock 1] (fresh_lock, world0\<lparr>calls := [CallNew cfg0 None]\<rparr>))
       = fresh_lock
   \<and> fst (Lock store_up 2 20 fresh_lock
        (snd (run store_up [OpLock 1 10, OpUnlock 1] (fresh_lock, world0\<lparr>calls := [CallNew cfg0 None]\<rparr>))))
       = None
   \<and> mutex (fst (snd (Lock store_up 2 20 fresh_lock
        (snd (run store_up [OpLock 1 10, OpUnlock 1] (fresh_lock, world0\<lparr>calls := [CallNew cfg0 None]\<rparr>))))))
       = Some (Mutex (Session 1 (Client cfg0) 20) ''/dist/lock/test_resource/'')"
  using prefix_fixed_at_construction [where lib = store_up and eps = "[''127.0.0.1:2379'']"
      and pfx = "''/dist/lock/test_resource/''" and wi = world0 and ?l0.0 = fresh_lock
      and ?w0.0 = "world0\<lparr>calls := [CallNew cfg0 None]\<rparr>" and xs = "[OpLock 1 10, OpUnlock 1]"
      and l = fresh_lock
      and w = "snd (run store_up [OpLock 1 10, OpUnlock 1] (fresh_lock, world0\<lparr>calls := [CallNew cfg0 None]\<rparr>))"
      and c = 2 and ttl = 20
      and l' = "fst (snd (Lock store_up 2 20 fresh_lock
        (snd (run store_up [OpLock 1 10, OpUnlock 1] (fresh_lock, world0\<lparr>calls := [CallNew cfg0 None]\<rparr>)))))"
      and w' = "snd (snd (Lock store_up 2 20 fresh_lock
        (snd (run store_up [OpLock 1 10, OpUnlock 1] (fresh_lock, world0\<lparr>calls := [CallNew cfg0 None]\<rparr>)))))"]
  by (simp add: eval_defs)

section \<open>Errors that reach the caller\<close>

text \<open>
  C7 says that no failing path of \<^verbatim>\<open>Lock\<close> or \<^verbatim>\<open>Unlock\<close> returns success or drops an
  error. On the code this fails for \<^verbatim>\<open>session.Close\<close>, whose result both functions
  discard: when the store cannot revoke the lease, \<^verbatim>\<open>Unlock\<close> on an instance that holds
  the lock still returns nil, and the error appears in the record of the library calls
  only.
\<close>

theorem session_close_error_dropped:
  "fst (Unlock store_revoke_fails 30 held_lock world1) = None
   \<and> calls (snd (snd (Unlock store_revoke_fails 30 held_lock world1)))
       = calls world1 @
         [CallMutexUnlock (Mutex session0 ''/dist/lock/test_resource/'') 30 None,
          CallSessionClose session0 (Some ''etcdserver: request timed out'')]"
  by (simp add: eval_defs)

text \<open>
  C7, as the code has it: \<^verbatim>\<open>Lock\<close> returns nil exactly when the client is set, the session
  is granted and \<^verbatim>\<open>mutex.Lock\<close> succeeds; \<^verbatim>\<open>Unlock\<close> returns nil exactly when both fields are
  set and \<^verbatim>\<open>mutex.Unlock\<close> succeeds. So every failure of one of these steps comes back as
  a non-nil error, and what \<^verbatim>\<open>session.Close\<close> returns has no part in the result.
\<close>

theorem checked_failures_are_returned:
  "((fst (Lock lib c ttl l w) = None) \<longleftrightarrow>
      (\<exists>cli s w1. etcdClient l = Some cli \<and> NewSession lib cli ttl w = (Inr s, w1) \<and>
         fst (Mutex_Lock lib (NewMutex s (lockPrefix l)) c w1) = None))
   \<and> ((fst (Unlock libu cu lu wu) = None) \<longleftrightarrow>
      (\<exists>m s. mutex lu = Some m \<and> session lu = Some s \<and> fst (Mutex_Unlock libu m cu wu) = None))"
proof
  show "(fst (Lock lib c ttl l w) = None) \<longleftrightarrow>
      (\<exists>cli s w1. etcdClient l = Some cli \<and> NewSession lib cli ttl w = (Inr s, w1) \<and>
         fst (Mutex_Lock lib (NewMutex s (lockPrefix l)) c w1) = None)"
    by (auto simp: Lock_def Let_def split: option.splits sum.splits prod.splits)
  show "(fst (Unlock libu cu lu wu) = None) \<longleftrightarrow>
      (\<exists>m s. mutex lu = Some m \<and> session lu = Some s \<and> fst (Mutex_Unlock libu m cu wu) = None)"
    by (auto simp: Unlock_def Let_def split: if_splits option.splits prod.splits)
qed

theorem checked_failures_are_returned_witness:
  "fst (Lock store_contended 30 10 fresh_lock world0) \<noteq> None
   \<and> fst (Lock store_up 30 10 fresh_lock world0) = None
   \<and> fst (Unlock store_unlock_fails 30 held_lock world1) \<noteq> None
   \<and> fst (Unlock store_revoke_fails 30 held_lock world1) = None"
  using checked_failures_are_returned [of store_contended 30 10 fresh_lock world0
      store_unlock_fails 30 held_lock world1]
  by (simp add: eval_defs)

section \<open>The session and mutex fields\<close>

text \<open>
  C9. The session field is nil exactly when the mutex field is nil: in the instance the
  constructor returns (both are nil), after every sequence of \<^verbatim>\<open>Lock\<close>, \<^verbatim>\<open>Unlock\<close> and
  \<^verbatim>\<open>Close\<close> calls on it, and after any single call on any instance where it held before.
  A \<^verbatim>\<open>Lock\<close> that returns nil sets both fields, an \<^verbatim>\<open>Unlock\<close> that returns nil clears both.
\<close>

theorem session_mutex_paired:
  "(NewEtcdDistLock lib eps pfx wi = (Inr l0, w0) \<longrightarrow>
      session l0 = None \<and> mutex l0 = None \<and>
      ((session (fst (run lib xs (l0, w0))) = None) \<longleftrightarrow> (mutex (fst (run lib xs (l0, w0))) = None)))
   \<and> (((session l = None) \<longleftrightarrow> (mutex l = None)) \<longrightarrow>
      ((session (fst (step lib x (l, w))) = None) \<longleftrightarrow> (mutex (fst (step lib x (l, w))) = None)))
   \<and> (Lock lib c ttl la wa = (None, la', wa') \<longrightarrow> session la' \<noteq> None \<and> mutex la' \<noteq> None)
   \<and> (Unlock lib cu lu wu = (None, lu', wu') \<longrightarrow> session lu' = None \<and> mutex lu' = None)"
proof (intro conjI impI)
  assume new: "NewEtcdDistLock lib eps pfx wi = (Inr l0, w0)"
  then show nil: "session l0 = None" and "mutex l0 = None"
    by (simp_all add: New_fields)
  with run_paired [of "(l0, w0)" lib xs]
  show "(session (fst (run lib xs (l0, w0))) = None) \<longleftrightarrow> (mutex (fst (run lib xs (l0, w0))) = None)"
    by simp
next
  assume "(session l = None) \<longleftrightarrow> (mutex l = None)"
  with step_paired [of "(l, w)" lib x]
  show "(session (fst (step lib x (l, w))) = None) \<longleftrightarrow> (mutex (fst (step lib x (l, w))) = None)"
    by simp
next
  assume "Lock lib c ttl la wa = (None, la', wa')"
  from Lock_ok_fields [OF this] show "session la' \<noteq> None" and "mutex la' \<noteq> None"
    by auto
next
  assume "Unlock lib cu lu wu = (None, lu', wu')"
  from Unlock_ok_fields [OF this] show "session lu' = None" and "mutex lu' = None"
    by auto
qed


theorem session_mutex_paired_witness:
  "NewEtcdDistLock store_up [''127.0.0.1:2379''] ''/dist/lock/test_resource/'' world0
     = (Inr fresh_lock, world0\<lparr>calls := [CallNew cfg0 None]\<rparr>)
   \<and> session (fst (run store_up [OpLock 30 10, OpClose]
        (fresh_lock, world0\<lparr>calls := [CallNew cfg0 None]\<rparr>))) = Some session0
   \<and> mutex (fst (run store_up [OpLock 30 10, OpClose]
        (fresh_lock, world0\<lparr>calls := [CallNew cfg0 None]\<rparr>)))
       = Some (Mutex session0 ''/dist/lock/test_resource/'')
   \<and> session (fst (step store_up (OpUnlock 30) (held_lock, world1))) = None
   \<and> mutex (fst (step store_up (OpUnlock 30) (held_lock, world1))) = None
   \<and> Lock store_up 30 10 fresh_lock world0 = (None, held_lock, world1)
   \<and> session held_lock \<noteq> None \<and> mutex held_lock \<noteq> None
   \<and> fst (Unlock store_up 30 held_lock world1) = None
   \<and> fst (snd (Unlock store_up 30 held_lock world1)) = fresh_lock
   \<and> session fresh_lock = None \<and> mutex fresh_lock = None"
  using session_mutex_paired [where lib = store_up and eps = "[''127.0.0.1:2379'']"
      and pfx = "''/dist/lock/test_resource/''" and wi = world0 and ?l0.0 = fresh_lock
      and ?w0.0 = "world0\<lparr>calls := [CallNew cfg0 None]\<rparr>" and xs = "[OpLock 30 10, OpClose]"
      and l = held_lock and w = world1 and x = "OpUnlock 30"
      and c = 30 and ttl = 10 and la = fresh_lock and wa = world0 and la' = held_lock and wa' = world1
      and cu = 30 and lu = held_lock and wu = world1 and lu' = fresh_lock
      and wu' = "snd (snd (Unlock store_up 30 held_lock world1))"]
  by (simp add: eval_defs)

text \<open>
  C10. A \<^verbatim>\<open>Lock\<close> that returns an error leaves the instance as it was, so the session and
  mutex fields of a fresh instance are still nil. An \<^verbatim>\<open>Unlock\<close> whose \<^verbatim>\<open>mutex.Unlock\<close>
  failed has made that one library call and leaves the instance as it was, with both
  fields set: a later \<^verbatim>\<open>Unlock\<close> does not answer "not held", it calls \<^verbatim>\<open>mutex.Unlock\<close> on
  the same mutex again and returns nil exactly when that call succeeds.
\<close>

theorem failed_call_changes_no_field:
  "(Lock lib c ttl l w = (Some e, l', w') \<longrightarrow>
      l' = l \<and> session l' = session l \<and> mutex l' = mutex l)
   \<and> (Unlock libu cu lu wu = (Some (ErrRelease eu), lu', wu') \<longrightarrow>
      lu' = lu \<and>
      (\<exists>m s. mutex lu' = Some m \<and> session lu' = Some s \<and>
         mutex_unlock_result libu wu m cu = Some eu \<and>
         calls wu' = calls wu @ [CallMutexUnlock m cu (Some eu)] \<and>
         fst (Unlock libr cr lu' wr) \<noteq> Some ErrNotHeld \<and>
         ((fst (Unlock libr cr lu' wr) = None) \<longleftrightarrow> (mutex_unlock_result libr wr m cr = None))))"
proof (intro conjI impI)
  assume "Lock lib c ttl l w = (Some e, l', w')"
  then have "l' = l" by (rule Lock_failed_unchanged)
  then show "l' = l" and "session l' = session l" and "mutex l' = mutex l" by simp_all
next
  assume a: "Unlock libu cu lu wu = (Some (ErrRelease eu), lu', wu')"
  then show same: "lu' = lu" by (rule Unlock_failed_unchanged)
  from a obtain m s where held: "mutex lu = Some m" "session lu = Some s"
    and res: "mutex_unlock_result libu wu m cu = Some eu"
    and log: "calls wu' = calls wu @ [CallMutexUnlock m cu (Some eu)]"
    by (auto simp: Unlock_def lib_defs split: if_splits option.splits prod.splits)
  have "fst (Unlock libr cr lu wr) \<noteq> Some ErrNotHeld"
    using held by (auto simp: Unlock_def lib_defs split: if_splits option.splits)
  moreover have "(fst (Unlock libr cr lu wr) = None) \<longleftrightarrow> (mutex_unlock_result libr wr m cr = None)"
    using held by (auto simp: Unlock_def lib_defs split: if_splits option.splits)
  ultimately show "\<exists>m s. mutex lu' = Some m \<and> session lu' = Some s \<and>
         mutex_unlock_result libu wu m cu = Some eu \<and>
         calls wu' = calls wu @ [CallMutexUnlock m cu (Some eu)] \<and>
         fst (Unlock libr cr lu' wr) \<noteq> Some ErrNotHeld \<and>
         ((fst (Unlock libr cr lu' wr) = None) \<longleftrightarrow> (mutex_unlock_result libr wr m cr = None))"
    using held res log same by simp
qed

theorem failed_call_changes_no_field_witness:
  "fst (Lock store_contended 30 10 fresh_lock world0) = Some (ErrAcquire ''context deadline exceeded'')
   \<and> fst (snd (Lock store_contended 30 10 fresh_lock world0)) = fresh_lock
   \<and> session fresh_lock = None \<and> mutex fresh_lock = None
   \<and> Unlock store_unlock_fails 30 held_lock world1
       = (Some (ErrRelease ''etcdserver: request timed out''), held_lock,
          world1\<lparr>calls := calls world1 @
            [CallMutexUnlock (Mutex session0 ''/dist/lock/test_resource/'') 30
               (Some ''etcdserver: request timed out'')]\<rparr>)
   \<and> fst (Unlock store_up 31 held_lock
        (world1\<lparr>calls := calls world1 @
            [CallMutexUnlock (Mutex session0 ''/dist/lock/test_resource/'') 30
               (Some ''etcdserver: request timed out'')]\<rparr>)) = None"
  using failed_call_changes_no_field [where lib = store_contended and c = 30 and ttl = 10
      and l = fresh_lock and w = world0 and e = "ErrAcquire ''context deadline exceeded''"
      and l' = fresh_lock and w' = "snd (snd (Lock store_contended 30 10 fresh_lock world0))"
      and libu = store_unlock_fails and cu = 30 and lu = held_lock and wu = world1
      and eu = "''etcdserver: request timed out''" and lu' = held_lock
      and wu' = "world1\<lparr>calls := calls world1 @
            [CallMutexUnlock (Mutex session0 ''/dist/lock/test_resource/'') 30
               (Some ''etcdserver: request timed out'')]\<rparr>"
      and libr = store_up and cr = 31
      and wr = "world1\<lparr>calls := calls world1 @
            [CallMutexUnlock (Mutex session0 ''/dist/lock/test_resource/'') 30
               (Some ''etcdserver: request timed out'')]\<rparr>"]
  by (simp add: eval_defs)

end
